theory Spec2Isabelle
  imports Main "HOL-Library.Word"
begin

section \<open>Chat session controller of \<open>app/page.tsx\<close>\<close>

text \<open>
  The page component keeps its session in React state cells and changes them from three
  event handlers (\<open>handleFileChange\<close>, \<open>removeAttachment\<close>, \<open>handleNewChat\<close>) and from
  the asynchronous \<open>submitPrompt\<close>. The state cells become one record, each handler a
  function from the record to the updated record. \<open>submitPrompt\<close> has one suspension
  point, \<open>await fetch\<close>: the part before it and the part after it are two functions, so
  that other handlers may run on the state in between, and the outcome of the network
  call is a value handed to the second part.

  Every handler is taken to run on the state of the latest render: React flushes the
  state updates of a click or submit event before it dispatches the next one.
\<close>

subsection \<open>Strings\<close>

text \<open>
  A JavaScript string is the sequence of its UTF-16 code units. \<open>lit\<close> is the string of
  a literal of the source, one code unit for each of its characters.
\<close>

type_synonym jstring = "16 word list"

definition lit :: "string \<Rightarrow> jstring" where
  "lit s = map of_char s"

abbreviation slash :: "16 word" where
  "slash \<equiv> 0x2F"

text \<open>
  \<open>String.prototype.trim\<close> removes white space and line terminators at both ends: tab,
  line feed, vertical tab, form feed, carriage return, the space separators of Unicode
  (U+0020, U+00A0, U+1680, U+2000 to U+200A, U+202F, U+205F, U+3000), the line and
  paragraph separators U+2028 and U+2029, and the byte order mark U+FEFF.
\<close>

definition is_whitespace :: "16 word \<Rightarrow> bool" where
  "is_whitespace c \<longleftrightarrow>
     c \<in> set [0x0009, 0x000A, 0x000B, 0x000C, 0x000D, 0x0020, 0x00A0, 0x1680,
               0x2000, 0x2001, 0x2002, 0x2003, 0x2004, 0x2005, 0x2006, 0x2007,
               0x2008, 0x2009, 0x200A, 0x2028, 0x2029, 0x202F, 0x205F, 0x3000, 0xFEFF]"

definition trim :: "jstring \<Rightarrow> jstring" where
  "trim s = dropWhile is_whitespace (rev (dropWhile is_whitespace (rev s)))"

subsection \<open>JSON values\<close>

text \<open>
  The value \<open>response.json()\<close> resolves to. An object lists its own properties in
  enumeration order, each key once. The code never computes with a number: it passes
  it on or serialises it. So the numbers are a type parameter \<open>'n\<close>, and the text that
  \<open>Number.prototype.toString\<close> gives for a number is a parameter \<open>num\<close> of the
  serialisation.
\<close>

datatype 'n json =
    JNull
  | JBool bool
  | JNum 'n
  | JStr jstring
  | JArr "'n json list"
  | JObj "(jstring \<times> 'n json) list"

definition hex_digit :: "nat \<Rightarrow> 16 word" where
  "hex_digit n = (if n < 10 then of_nat (48 + n) else of_nat (87 + n))"

text \<open>\<open>UnicodeEscape\<close>: backslash, \<open>u\<close> and four lower-case hexadecimal digits.\<close>

definition unicode_escape :: "16 word \<Rightarrow> jstring" where
  "unicode_escape c =
     [0x5C, 0x75, hex_digit (unat c div 4096), hex_digit (unat c div 256 mod 16),
      hex_digit (unat c div 16 mod 16), hex_digit (unat c mod 16)]"

definition is_leading_surrogate :: "16 word \<Rightarrow> bool" where
  "is_leading_surrogate c \<longleftrightarrow> 0xD800 \<le> c \<and> c \<le> 0xDBFF"

definition is_trailing_surrogate :: "16 word \<Rightarrow> bool" where
  "is_trailing_surrogate c \<longleftrightarrow> 0xDC00 \<le> c \<and> c \<le> 0xDFFF"

text \<open>
  \<open>QuoteJSONString\<close> on a code point that is one code unit: the two-character escapes,
  then \<open>UnicodeEscape\<close> for the other control characters and for a surrogate that
  stands alone, and the code unit itself otherwise.
\<close>

definition quote_unit :: "16 word \<Rightarrow> jstring" where
  "quote_unit c =
     (if c = 0x08 then [0x5C, 0x62]
      else if c = 0x09 then [0x5C, 0x74]
      else if c = 0x0A then [0x5C, 0x6E]
      else if c = 0x0C then [0x5C, 0x66]
      else if c = 0x0D then [0x5C, 0x72]
      else if c = 0x22 then [0x5C, 0x22]
      else if c = 0x5C then [0x5C, 0x5C]
      else if c < 0x20 \<or> is_leading_surrogate c \<or> is_trailing_surrogate c
        then unicode_escape c
      else [c])"

text \<open>A leading surrogate followed by a trailing one is one code point, and is kept.\<close>

fun quote_units :: "jstring \<Rightarrow> jstring" where
  "quote_units [] = []"
| "quote_units [c] = quote_unit c"
| "quote_units (c # d # cs) =
     (if is_leading_surrogate c \<and> is_trailing_surrogate d then c # d # quote_units cs
      else quote_unit c @ quote_units (d # cs))"

definition quote_string :: "jstring \<Rightarrow> jstring" where
  "quote_string s = 0x22 # quote_units s @ [0x22]"

text \<open>\<open>JSON.stringify\<close> without indentation: members and elements joined by a comma.\<close>

fun JSON_stringify :: "('n \<Rightarrow> jstring) \<Rightarrow> 'n json \<Rightarrow> jstring"
  and stringify_elements :: "('n \<Rightarrow> jstring) \<Rightarrow> 'n json list \<Rightarrow> jstring"
  and stringify_members :: "('n \<Rightarrow> jstring) \<Rightarrow> (jstring \<times> 'n json) list \<Rightarrow> jstring" where
  "JSON_stringify num JNull = lit ''null''"
| "JSON_stringify num (JBool b) = (if b then lit ''true'' else lit ''false'')"
| "JSON_stringify num (JNum n) = num n"
| "JSON_stringify num (JStr s) = quote_string s"
| "JSON_stringify num (JArr vs) = lit ''['' @ stringify_elements num vs @ lit '']''"
| "JSON_stringify num (JObj ms) = lit ''{'' @ stringify_members num ms @ lit ''}''"
| "stringify_elements num [] = []"
| "stringify_elements num [v] = JSON_stringify num v"
| "stringify_elements num (v # w # vs) =
     JSON_stringify num v @ lit '','' @ stringify_elements num (w # vs)"
| "stringify_members num [] = []"
| "stringify_members num [(k, v)] = quote_string k @ lit '':'' @ JSON_stringify num v"
| "stringify_members num ((k, v) # m # ms) =
     quote_string k @ lit '':'' @ JSON_stringify num v @ lit '','' @ stringify_members num (m # ms)"

subsection \<open>Data model\<close>

datatype role = User | Assistant

text \<open>
  \<open>Message.content\<close> is declared \<open>string\<close>, but the success path stores a field of the
  untyped payload in it unchecked, so the cell holds a JSON value; a string is \<open>JStr\<close>.
\<close>

record 'n Message =
  role :: role
  content :: "'n json"

record File =
  file_name :: jstring
  file_size :: nat
  file_content :: "8 word list"

record 'n session =
  messages :: "'n Message list"
  input :: jstring
  isLoading :: bool
  error :: jstring
  highlightedSuggestion :: "jstring option"
  attachedFiles :: "File list"
  activeHistoryId :: jstring

definition WELCOME_MESSAGE :: jstring where
  "WELCOME_MESSAGE =
     lit ''Hi there! I am connected to the FastAPI backend running inside Azure Container Apps. Ask me anything about the deployment or try out a few prompts below.''"

definition APOLOGY :: jstring where
  "APOLOGY = lit ''I could not reach the backend right now. Please try again in a moment.''"

text \<open>The state of the first render.\<close>

definition initial_session :: "'n session" where
  "initial_session =
     \<lparr>messages = [\<lparr>role = Assistant, content = JStr WELCOME_MESSAGE\<rparr>],
      input = [], isLoading = False, error = [], highlightedSuggestion = None,
      attachedFiles = [], activeHistoryId = lit ''deployment''\<rparr>"

subsection \<open>Endpoint configuration\<close>

text \<open>The two \<open>process.env\<close> values; \<open>None\<close> is \<open>undefined\<close>.\<close>

record config =
  NEXT_PUBLIC_BACKEND_URL :: "jstring option"
  NEXT_PUBLIC_BACKEND_PATH :: "jstring option"

definition DEFAULT_BACKEND_URL :: jstring where
  "DEFAULT_BACKEND_URL =
     lit ''https://fastapi-dev.calmdesert-eab0db8f.eastus.azurecontainerapps.io''"

definition DEFAULT_BACKEND_PATH :: jstring where
  "DEFAULT_BACKEND_PATH = lit ''/chat''"

definition RAW_BACKEND_URL :: "config \<Rightarrow> jstring" where
  "RAW_BACKEND_URL cfg =
     (case NEXT_PUBLIC_BACKEND_URL cfg of None \<Rightarrow> DEFAULT_BACKEND_URL | Some u \<Rightarrow> u)"

definition RAW_BACKEND_PATH :: "config \<Rightarrow> jstring" where
  "RAW_BACKEND_PATH cfg =
     (case NEXT_PUBLIC_BACKEND_PATH cfg of None \<Rightarrow> DEFAULT_BACKEND_PATH | Some p \<Rightarrow> p)"

text \<open>\<open>raw.replace(/\/+$/, '')\<close>: the whole run of slashes at the end is removed.\<close>

definition NORMALIZED_BACKEND_URL :: "jstring \<Rightarrow> jstring" where
  "NORMALIZED_BACKEND_URL raw = rev (dropWhile (\<lambda>c. c = slash) (rev raw))"

text \<open>\<open>raw.startsWith('/') ? raw : `/${raw}`\<close>.\<close>

definition NORMALIZED_BACKEND_PATH :: "jstring \<Rightarrow> jstring" where
  "NORMALIZED_BACKEND_PATH raw =
     (case raw of
        c # _ \<Rightarrow> if c = slash then raw else slash # raw
      | [] \<Rightarrow> slash # raw)"

definition resolve_endpoint :: "jstring \<Rightarrow> jstring \<Rightarrow> jstring" where
  "resolve_endpoint url path = NORMALIZED_BACKEND_URL url @ NORMALIZED_BACKEND_PATH path"

definition BACKEND_ENDPOINT :: "config \<Rightarrow> jstring" where
  "BACKEND_ENDPOINT cfg = resolve_endpoint (RAW_BACKEND_URL cfg) (RAW_BACKEND_PATH cfg)"

subsection \<open>Attachment staging and session reset\<close>




definition handleNewChat :: "'n session \<Rightarrow> 'n session" where
  "handleNewChat s =
     s\<lparr>messages := [\<lparr>role = Assistant, content = JStr WELCOME_MESSAGE\<rparr>],
       input := [],
       error := [],
       attachedFiles := [],
       highlightedSuggestion := None\<rparr>"

subsection \<open>Submitting a prompt\<close>

text \<open>The argument of \<open>fetch\<close>: a \<open>FormData\<close> body is its list of entries, in the order
  they were appended; \<open>headers\<close> is empty where the source gives none;
  \<open>request_method\<close> is the field \<open>method\<close>.\<close>

datatype form_value = FormText jstring | FormFile File

datatype body_init = FormData "(jstring \<times> form_value) list" | BodyText jstring

record RequestInit =
  request_method :: jstring
  headers :: "(jstring \<times> jstring) list"
  body :: body_init

definition requestInit :: "('n \<Rightarrow> jstring) \<Rightarrow> File list \<Rightarrow> jstring \<Rightarrow> RequestInit" where
  "requestInit num files trimmed =
     (let hasAttachments = length files > 0 in
      if hasAttachments
      then \<lparr>request_method = lit ''POST'', headers = [],
            body = FormData ((lit ''prompt'', FormText trimmed)
                     # map (\<lambda>f. (lit ''files'', FormFile f)) files)\<rparr>
      else \<lparr>request_method = lit ''POST'',
            headers = [(lit ''Content-Type'', lit ''application/json'')],
            body = BodyText (JSON_stringify num (JObj [(lit ''prompt'', JStr trimmed)]))\<rparr>)"

text \<open>A thrown value: an \<open>Error\<close> instance with its message, or anything else.\<close>

datatype thrown = ErrorObject jstring | OtherValue

text \<open>
  The outcome of \<open>await fetch\<close>: the promise rejects, or it resolves to a response. Of a
  response the code reads \<open>ok\<close> (the status is 200 to 299) and then one of \<open>text()\<close> and
  \<open>json()\<close>; each may reject, \<open>json()\<close> with a \<open>SyntaxError\<close> when the body is not JSON.
\<close>

record 'n Response =
  status :: nat
  text_result :: "thrown + jstring"
  json_result :: "thrown + 'n json"

definition ok :: "'n Response \<Rightarrow> bool" where
  "ok response \<longleftrightarrow> 200 \<le> status response \<and> status response \<le> 299"

datatype 'n fetch_outcome = Rejected thrown | Resolved "'n Response"

text \<open>\<open>payload.k\<close> on a payload that is not \<open>null\<close>: \<open>None\<close> is \<open>undefined\<close>. Only an
  object has any of the five properties read below.\<close>

definition property :: "'n json \<Rightarrow> jstring \<Rightarrow> 'n json option" where
  "property payload k = (case payload of JObj ms \<Rightarrow> map_of ms k | _ \<Rightarrow> None)"

text \<open>\<open>a ?? b\<close>: \<open>b\<close> when \<open>a\<close> is \<open>undefined\<close> or \<open>null\<close>, otherwise \<open>a\<close>.\<close>

definition coalesce :: "'n json option \<Rightarrow> 'n json \<Rightarrow> 'n json" where
  "coalesce a b = (case a of None \<Rightarrow> b | Some v \<Rightarrow> if v = JNull then b else v)"

text \<open>Reading a property of \<open>null\<close> throws a \<open>TypeError\<close>; the message is V8's.\<close>

definition null_read_message :: "jstring \<Rightarrow> jstring" where
  "null_read_message k =
     lit ''Cannot read properties of null (reading '' @ [0x27] @ k @ [0x27] @ lit '')''"

definition assistantContent :: "('n \<Rightarrow> jstring) \<Rightarrow> 'n json \<Rightarrow> thrown + 'n json" where
  "assistantContent num payload =
     (if payload = JNull then Inl (ErrorObject (null_read_message (lit ''reply'')))
      else Inr
        (coalesce (property payload (lit ''reply''))
        (coalesce (property payload (lit ''answer''))
        (coalesce (property payload (lit ''output''))
        (coalesce (property payload (lit ''response''))
        (coalesce (property payload (lit ''message''))
        (JStr (JSON_stringify num payload))))))))"

text \<open>The body of the \<open>try\<close> after the call: the assistant content, or what was thrown.\<close>

definition try_block :: "('n \<Rightarrow> jstring) \<Rightarrow> 'n fetch_outcome \<Rightarrow> thrown + 'n json" where
  "try_block num outcome =
     (case outcome of
        Rejected err \<Rightarrow> Inl err
      | Resolved response \<Rightarrow>
          if \<not> ok response then
            (case text_result response of
               Inl err \<Rightarrow> Inl err
             | Inr body_text \<Rightarrow>
                 Inl (ErrorObject
                   (if body_text = [] then lit ''Backend responded with an error''
                    else body_text)))
          else
            (case json_result response of
               Inl err \<Rightarrow> Inl err
             | Inr payload \<Rightarrow> assistantContent num payload))"

definition catch_message :: "thrown \<Rightarrow> jstring" where
  "catch_message err =
     (case err of
        ErrorObject m \<Rightarrow> m
      | OtherValue \<Rightarrow> lit ''Unable to reach the backend. Please try again.'')"

text \<open>
  \<open>submitPrompt\<close> up to \<open>await fetch\<close>: the guard, the four state updates, and the call
  that is issued (\<open>None\<close> when the guard returns).
\<close>

definition submitPrompt_start ::
  "config \<Rightarrow> ('n \<Rightarrow> jstring) \<Rightarrow> jstring option \<Rightarrow> 'n session
     \<Rightarrow> 'n session \<times> (jstring \<times> RequestInit) option" where
  "submitPrompt_start cfg num preset s =
     (let trimmed = trim (case preset of None \<Rightarrow> input s | Some p \<Rightarrow> p) in
      if trimmed = [] \<or> isLoading s then (s, None)
      else
        (s\<lparr>error := [],
           isLoading := True,
           messages := messages s @ [\<lparr>role = User, content = JStr trimmed\<rparr>],
           input := []\<rparr>,
         Some (BACKEND_ENDPOINT cfg, requestInit num (attachedFiles s) trimmed)))"

text \<open>\<open>submitPrompt\<close> from the outcome of the call on: \<open>try\<close>, \<open>catch\<close>, \<open>finally\<close>.\<close>

definition submitPrompt_settle ::
  "('n \<Rightarrow> jstring) \<Rightarrow> 'n fetch_outcome \<Rightarrow> 'n session \<Rightarrow> 'n session" where
  "submitPrompt_settle num outcome s =
     (case try_block num outcome of
        Inr assistant \<Rightarrow>
          s\<lparr>messages := messages s @ [\<lparr>role = Assistant, content = assistant\<rparr>],
            attachedFiles := [],
            isLoading := False\<rparr>
      | Inl err \<Rightarrow>
          s\<lparr>error := catch_message err,
            messages := messages s @ [\<lparr>role = Assistant, content = JStr APOLOGY\<rparr>],
            isLoading := False\<rparr>)"

text \<open>
  One whole run with no other handler in between: the network is a function from the
  call to its outcome, and the second component lists the calls made.
\<close>

definition submitPrompt ::
  "config \<Rightarrow> ('n \<Rightarrow> jstring) \<Rightarrow> (jstring \<times> RequestInit \<Rightarrow> 'n fetch_outcome)
     \<Rightarrow> jstring option \<Rightarrow> 'n session \<Rightarrow> 'n session \<times> (jstring \<times> RequestInit) list" where
  "submitPrompt cfg num fetch preset s =
     (case submitPrompt_start cfg num preset s of
        (s', None) \<Rightarrow> (s', [])
      | (s', Some call) \<Rightarrow> (submitPrompt_settle num (fetch call) s', [call]))"

subsection \<open>The spec's wording, for comparison\<close>

text \<open>
  The reply as the spec words it: the value of the first of the five fields that is
  present in the payload, and the serialisation of the payload when none is.
\<close>

definition spec_displayed :: "('n \<Rightarrow> jstring) \<Rightarrow> 'n json \<Rightarrow> 'n json" where
  "spec_displayed num payload =
     (case List.map_filter (property payload)
             [lit ''reply'', lit ''answer'', lit ''output'', lit ''response'', lit ''message''] of
        [] \<Rightarrow> JStr (JSON_stringify num payload)
      | v # _ \<Rightarrow> v)"

text \<open>
  The endpoint as the spec words it: the base without its trailing slashes, one slash,
  and the path without its leading slashes.
\<close>

definition spec_resolve_endpoint :: "jstring \<Rightarrow> jstring \<Rightarrow> jstring" where
  "spec_resolve_endpoint url path =
     rev (dropWhile (\<lambda>c. c = slash) (rev url)) @ slash # dropWhile (\<lambda>c. c = slash) path"

subsection \<open>Example inputs\<close>

text \<open>
  The configuration with neither variable set, a platform with the one number 1e21, the
  session of the first render, two files, two texts with white space around them, and
  five responses: a reply, a server error, a body that is not JSON, the body \<open>null\<close>,
  and a payload without a usable reply field.
\<close>

abbreviation default_config :: config where
  "default_config \<equiv> \<lparr>NEXT_PUBLIC_BACKEND_URL = None, NEXT_PUBLIC_BACKEND_PATH = None\<rparr>"

abbreviation num_1e21 :: "unit \<Rightarrow> jstring" where
  "num_1e21 \<equiv> (\<lambda>_. lit ''1e+21'')"

abbreviation session0 :: "unit session" where
  "session0 \<equiv> initial_session"

abbreviation padded_hello :: jstring where
  "padded_hello \<equiv> 0xA0 # lit '' Hello  '' @ [0x2028]"

abbreviation padded_quote :: jstring where
  "padded_quote \<equiv> 0xA0 # lit ''a'' @ [0x0A, 0x22] @ lit ''b ''"

abbreviation trimmed_quote :: jstring where
  "trimmed_quote \<equiv> lit ''a'' @ [0x0A, 0x22] @ lit ''b''"

abbreviation file_a :: File where
  "file_a \<equiv> \<lparr>file_name = lit ''a.png'', file_size = 3, file_content = [0x61, 0x62, 0x63]\<rparr>"


abbreviation response_200 :: "unit Response" where
  "response_200 \<equiv>
     \<lparr>status = 200, text_result = Inr (lit ''{\"reply\":\"Hi!\"}''),
      json_result = Inr (JObj [(lit ''reply'', JStr (lit ''Hi!''))])\<rparr>"

abbreviation response_500 :: "unit Response" where
  "response_500 \<equiv>
     \<lparr>status = 500, text_result = Inr (lit ''server exploded''),
      json_result = Inl (ErrorObject (lit ''Unexpected token''))\<rparr>"

abbreviation response_bad :: "unit Response" where
  "response_bad \<equiv>
     \<lparr>status = 200, text_result = Inr [],
      json_result = Inl (ErrorObject (lit ''Unexpected end of JSON input''))\<rparr>"

abbreviation response_null :: "unit Response" where
  "response_null \<equiv> \<lparr>status = 201, text_result = Inr (lit ''null''), json_result = Inr JNull\<rparr>"

abbreviation response_number :: "unit Response" where
  "response_number \<equiv>
     \<lparr>status = 299, text_result = Inr [],
      json_result =
        Inr (JObj [(lit ''reply'', JNull), (lit ''n'', JNum ()), (lit ''s'', JStr [0x22, 0xD800])])\<rparr>"

section \<open>Properties\<close>

subsection \<open>Auxiliary facts\<close>

lemma unat_of_char: "unat (of_char c :: 16 word) = of_char c"
proof -
  have "(of_char c :: 16 word) = of_nat (of_char c)"
    by (simp add: of_nat_of_char)
  moreover have "(of_char c :: nat) < 2 ^ 16"
    by (rule less_trans [OF nat_of_char_less_256]) simp
  ultimately show ?thesis
    by (simp add: unat_of_nat)
qed

lemma lit_eq_iff [simp]: "lit a = lit b \<longleftrightarrow> a = b"
proof -
  have "inj (of_char :: char \<Rightarrow> 16 word)"
  proof (rule injI)
    fix x y :: char
    assume "(of_char x :: 16 word) = of_char y"
    then have "unat (of_char x :: 16 word) = unat (of_char y :: 16 word)" by simp
    then show "x = y" by (simp add: unat_of_char)
  qed
  then show ?thesis by (simp add: lit_def inj_map_eq_map)
qed




lemma try_block_simps:
  "try_block num (Rejected err) = Inl err"
  "\<not> ok response \<Longrightarrow> text_result response = Inr b \<Longrightarrow>
     try_block num (Resolved response) =
       Inl (ErrorObject (if b = [] then lit ''Backend responded with an error'' else b))"
  "\<not> ok response \<Longrightarrow> text_result response = Inl err \<Longrightarrow>
     try_block num (Resolved response) = Inl err"
  "ok response \<Longrightarrow> json_result response = Inl err \<Longrightarrow>
     try_block num (Resolved response) = Inl err"
  "ok response \<Longrightarrow> json_result response = Inr payload \<Longrightarrow>
     try_block num (Resolved response) = assistantContent num payload"
  by (simp_all add: try_block_def)

lemma settle_messages:
  "\<exists>m. messages (submitPrompt_settle num outcome t) = messages t @ [m] \<and> role m = Assistant"
  by (cases "try_block num outcome") (simp_all add: submitPrompt_settle_def)

lemma settle_failure:
  "try_block num outcome = Inl err \<Longrightarrow>
     submitPrompt_settle num outcome t =
       t\<lparr>error := catch_message err,
         messages := messages t @ [\<lparr>role = Assistant, content = JStr APOLOGY\<rparr>],
         isLoading := False\<rparr>"
  by (simp add: submitPrompt_settle_def)

lemma settle_success:
  "try_block num outcome = Inr assistant \<Longrightarrow>
     submitPrompt_settle num outcome t =
       t\<lparr>messages := messages t @ [\<lparr>role = Assistant, content = assistant\<rparr>],
         attachedFiles := [],
         isLoading := False\<rparr>"
  by (simp add: submitPrompt_settle_def)

lemma settle_idle: "\<not> isLoading (submitPrompt_settle num outcome t)"
  by (cases "try_block num outcome") (simp_all add: submitPrompt_settle_def)

lemma start_accepted:
  assumes "trim (case preset of None \<Rightarrow> input s | Some p \<Rightarrow> p) \<noteq> []" and "\<not> isLoading s"
  shows "submitPrompt_start cfg num preset s =
     (s\<lparr>error := [], isLoading := True,
        messages := messages s @
          [\<lparr>role = User, content = JStr (trim (case preset of None \<Rightarrow> input s | Some p \<Rightarrow> p))\<rparr>],
        input := []\<rparr>,
      Some (BACKEND_ENDPOINT cfg,
            requestInit num (attachedFiles s)
              (trim (case preset of None \<Rightarrow> input s | Some p \<Rightarrow> p))))"
  using assms by (simp add: submitPrompt_start_def Let_def)

lemma start_rejected:
  assumes "isLoading s \<or> trim (case preset of None \<Rightarrow> input s | Some p \<Rightarrow> p) = []"
  shows "submitPrompt_start cfg num preset s = (s, None)"
  using assms by (auto simp add: submitPrompt_start_def Let_def)

lemma assistantContent_first_non_null:
  assumes "payload \<noteq> JNull"
  shows "assistantContent num payload =
     Inr (case filter (\<lambda>v. v \<noteq> JNull)
                 (List.map_filter (property payload)
                    [lit ''reply'', lit ''answer'', lit ''output'', lit ''response'',
                     lit ''message'']) of
            [] \<Rightarrow> JStr (JSON_stringify num payload)
          | v # _ \<Rightarrow> v)"
  using assms
  by (simp add: assistantContent_def coalesce_def List.map_filter_simps split: option.splits)

lemma assistantContent_not_null:
  "payload \<noteq> JNull \<Longrightarrow> \<exists>assistant. assistantContent num payload = Inr assistant"
  by (simp add: assistantContent_def)

lemma assistantContent_null:
  "\<exists>m. assistantContent num JNull = Inl (ErrorObject m)"
  by (simp add: assistantContent_def)

lemma requestInit_with_files:
  "files \<noteq> [] \<Longrightarrow> requestInit num files trimmed =
     \<lparr>request_method = lit ''POST'', headers = [],
      body = FormData ((lit ''prompt'', FormText trimmed)
               # map (\<lambda>f. (lit ''files'', FormFile f)) files)\<rparr>"
  by (simp add: requestInit_def)

lemma requestInit_without_files:
  "requestInit num [] trimmed =
     \<lparr>request_method = lit ''POST'',
      headers = [(lit ''Content-Type'', lit ''application/json'')],
      body = BodyText (lit ''{\"prompt\":'' @ quote_string trimmed @ lit ''}'')\<rparr>"
  by (simp add: requestInit_def quote_string_def quote_unit_def lit_def
      is_leading_surrogate_def is_trailing_surrogate_def)

lemma dropWhile_no_leading:
  "dropWhile P xs = [] \<or> \<not> P (hd (dropWhile P xs))"
  using hd_dropWhile [of P xs] by blast

lemma NORMALIZED_BACKEND_URL_no_trailing_slash:
  "NORMALIZED_BACKEND_URL url = [] \<or> last (NORMALIZED_BACKEND_URL url) \<noteq> slash"
  using dropWhile_no_leading [of "\<lambda>c. c = slash" "rev url"]
  by (auto simp: NORMALIZED_BACKEND_URL_def last_rev)

lemma NORMALIZED_BACKEND_PATH_cases:
  "NORMALIZED_BACKEND_PATH path = (if take 1 path = [slash] then path else slash # path)"
  by (cases path) (simp_all add: NORMALIZED_BACKEND_PATH_def)

lemma NORMALIZED_BACKEND_PATH_single:
  assumes "take 2 path \<noteq> [slash, slash]"
  shows "NORMALIZED_BACKEND_PATH path = slash # dropWhile (\<lambda>c. c = slash) path"
proof (cases path)
  case Nil
  then show ?thesis by (simp add: NORMALIZED_BACKEND_PATH_def)
next
  case (Cons c cs)
  show ?thesis
  proof (cases "c = slash")
    case False
    with Cons show ?thesis by (simp add: NORMALIZED_BACKEND_PATH_def)
  next
    case True
    with Cons assms have "dropWhile (\<lambda>c. c = slash) cs = cs"
      by (cases cs) auto
    with Cons True show ?thesis by (simp add: NORMALIZED_BACKEND_PATH_def)
  qed
qed

subsection \<open>Submission\<close>

text \<open>
  C1. A call of \<open>submitPrompt\<close> whose text is not empty after trimming, made while no
  submission is in flight, appends exactly one user Message holding the trimmed text and
  issues the network call from that state. Whatever the outcome of the call and whatever
  the session has become meanwhile, settling appends exactly one assistant Message. A run
  with nothing in between therefore extends the message sequence by the user Message and
  one assistant Message, the earlier messages staying in place.
\<close>

theorem submit_appends_one_user_then_one_assistant:
  assumes "trim (case preset of None \<Rightarrow> input s | Some p \<Rightarrow> p) \<noteq> []" and "\<not> isLoading s"
  shows
    "messages (fst (submitPrompt_start cfg num preset s)) =
       messages s @ [\<lparr>role = User, content = JStr (trim (case preset of None \<Rightarrow> input s | Some p \<Rightarrow> p))\<rparr>]
     \<and> snd (submitPrompt_start cfg num preset s) \<noteq> None
     \<and> (\<forall>outcome t. \<exists>m. messages (submitPrompt_settle num outcome t) = messages t @ [m]
            \<and> role m = Assistant)
     \<and> (\<exists>m. messages (fst (submitPrompt cfg num fetch preset s)) =
            messages s @ [\<lparr>role = User, content = JStr (trim (case preset of None \<Rightarrow> input s | Some p \<Rightarrow> p))\<rparr>, m]
            \<and> role m = Assistant)"
proof -
  let ?trimmed = "trim (case preset of None \<Rightarrow> input s | Some p \<Rightarrow> p)"
  let ?user = "\<lparr>role = User, content = JStr ?trimmed\<rparr> :: 'a Message"
  let ?s1 = "fst (submitPrompt_start cfg num preset s)"
  let ?call = "(BACKEND_ENDPOINT cfg, requestInit num (attachedFiles s) ?trimmed)"
  note st = start_accepted [OF assms, of cfg num]
  have user: "messages ?s1 = messages s @ [?user]"
    by (simp add: st)
  have issued: "snd (submitPrompt_start cfg num preset s) \<noteq> None"
    by (simp add: st)
  have run: "fst (submitPrompt cfg num fetch preset s) = submitPrompt_settle num (fetch ?call) ?s1"
    by (simp add: submitPrompt_def st)
  obtain m where m: "messages (submitPrompt_settle num (fetch ?call) ?s1) = messages ?s1 @ [m]"
      "role m = Assistant"
    using settle_messages by blast
  have whole: "\<exists>m. messages (fst (submitPrompt cfg num fetch preset s)) = messages s @ [?user, m]
      \<and> role m = Assistant"
    using m user run by simp
  from user issued whole settle_messages show ?thesis by blast
qed

theorem submit_appends_one_user_then_one_assistant_witness:
  "trim padded_hello = lit ''Hello''
   \<and> lit ''Hello'' \<noteq> [] \<and> \<not> isLoading session0
   \<and> messages (fst (submitPrompt_start default_config num_1e21 (Some padded_hello) session0)) =
       messages session0 @ [\<lparr>role = User, content = JStr (lit ''Hello'')\<rparr>]
   \<and> snd (submitPrompt_start default_config num_1e21 (Some padded_hello) session0) \<noteq> None
   \<and> (\<exists>m. messages (fst (submitPrompt default_config num_1e21 (\<lambda>_. Rejected OtherValue) (Some padded_hello) session0)) =
          messages session0 @ [\<lparr>role = User, content = JStr (lit ''Hello'')\<rparr>, m]
          \<and> role m = Assistant)"
proof -
  have t: "trim padded_hello = lit ''Hello''"
    by (simp add: trim_def is_whitespace_def lit_def)
  have h1: "trim (case (Some padded_hello) of None \<Rightarrow> input session0 | Some p \<Rightarrow> p) \<noteq> []"
    by (simp add: trim_def is_whitespace_def lit_def)
  have h2: "\<not> isLoading session0"
    by (simp add: initial_session_def)
  have n: "lit ''Hello'' \<noteq> []"
    by (simp add: lit_def)
  show ?thesis
    using submit_appends_one_user_then_one_assistant
      [OF h1 h2, where cfg = default_config and num = num_1e21
        and fetch = "\<lambda>_. Rejected OtherValue"] h2 n
    by (simp add: t)
qed

text \<open>
  C2. While a submission is in flight (\<open>isLoading\<close> is set), or when the text is empty
  after trimming, \<open>submitPrompt\<close> returns the session unchanged and issues no network call.
\<close>

theorem submit_rejected_changes_nothing:
  assumes "isLoading s \<or> trim (case preset of None \<Rightarrow> input s | Some p \<Rightarrow> p) = []"
  shows "submitPrompt_start cfg num preset s = (s, None)
     \<and> submitPrompt cfg num fetch preset s = (s, [])"
  using start_rejected [OF assms] by (simp add: submitPrompt_def)

theorem submit_rejected_changes_nothing_witness:
  "isLoading (session0\<lparr>isLoading := True\<rparr>)
   \<and> submitPrompt_start default_config num_1e21 (Some (lit ''Hello'')) (session0\<lparr>isLoading := True\<rparr>) =
       (session0\<lparr>isLoading := True\<rparr>, None)
   \<and> submitPrompt default_config num_1e21 (\<lambda>_. Rejected OtherValue) (Some (lit ''Hello'')) (session0\<lparr>isLoading := True\<rparr>) =
       (session0\<lparr>isLoading := True\<rparr>, [])
   \<and> trim [0x20, 0x0A, 0xA0, 0x3000, 0xFEFF] = []
   \<and> submitPrompt_start default_config num_1e21 (Some [0x20, 0x0A, 0xA0, 0x3000, 0xFEFF]) session0 = (session0, None)
   \<and> submitPrompt default_config num_1e21 (\<lambda>_. Rejected OtherValue) (Some [0x20, 0x0A, 0xA0, 0x3000, 0xFEFF]) session0 =
       (session0, [])"
proof -
  have h1: "isLoading (session0\<lparr>isLoading := True\<rparr>)
      \<or> trim (case Some (lit ''Hello'') of None \<Rightarrow> input (session0\<lparr>isLoading := True\<rparr>) | Some p \<Rightarrow> p) = []"
    by simp
  have t: "trim [0x20, 0x0A, 0xA0, 0x3000, 0xFEFF] = []"
    by (simp add: trim_def is_whitespace_def)
  then have h2: "isLoading session0
      \<or> trim (case Some [0x20, 0x0A, 0xA0, 0x3000, 0xFEFF] of None \<Rightarrow> input session0 | Some p \<Rightarrow> p) = []"
    by simp
  show ?thesis
    using submit_rejected_changes_nothing [OF h1, where cfg = default_config and num = num_1e21
        and fetch = "\<lambda>_. Rejected OtherValue"]
      submit_rejected_changes_nothing [OF h2, where cfg = default_config and num = num_1e21
        and fetch = "\<lambda>_. Rejected OtherValue"] t
    by simp
qed

text \<open>
  C4. The call issued by an accepted submission goes to the fixed endpoint with method
  POST. With staged attachments its body is form data holding the trimmed text under
  \<open>prompt\<close> followed by each staged file under \<open>files\<close>, and it sets no header; with none,
  its body is the JSON text \<open>{"prompt": text}\<close> of the trimmed text and its one header is
  \<open>Content-Type: application/json\<close>.
\<close>

theorem request_has_one_of_two_shapes:
  assumes "trim (case preset of None \<Rightarrow> input s | Some p \<Rightarrow> p) \<noteq> []" and "\<not> isLoading s"
  shows "\<exists>init. snd (submitPrompt_start cfg num preset s) = Some (BACKEND_ENDPOINT cfg, init)
     \<and> request_method init = lit ''POST''
     \<and> (attachedFiles s \<noteq> [] \<longrightarrow>
          headers init = []
          \<and> body init =
               FormData
                 ((lit ''prompt'', FormText (trim (case preset of None \<Rightarrow> input s | Some p \<Rightarrow> p)))
                    # map (\<lambda>f. (lit ''files'', FormFile f)) (attachedFiles s)))
     \<and> (attachedFiles s = [] \<longrightarrow>
          headers init = [(lit ''Content-Type'', lit ''application/json'')]
          \<and> body init =
               BodyText (lit ''{\"prompt\":'' @ quote_string (trim (case preset of None \<Rightarrow> input s | Some p \<Rightarrow> p)) @ lit ''}''))"
proof -
  let ?trimmed = "trim (case preset of None \<Rightarrow> input s | Some p \<Rightarrow> p)"
  let ?init = "requestInit num (attachedFiles s) ?trimmed"
  have call: "snd (submitPrompt_start cfg num preset s) = Some (BACKEND_ENDPOINT cfg, ?init)"
    by (simp add: start_accepted [OF assms])
  have post: "request_method ?init = lit ''POST''"
    by (simp add: requestInit_def)
  have multipart: "headers ?init = []
      \<and> body ?init =
           FormData ((lit ''prompt'', FormText ?trimmed)
             # map (\<lambda>f. (lit ''files'', FormFile f)) (attachedFiles s))"
    if "attachedFiles s \<noteq> []"
    using that by (simp add: requestInit_with_files)
  have plain: "headers ?init = [(lit ''Content-Type'', lit ''application/json'')]
      \<and> body ?init = BodyText (lit ''{\"prompt\":'' @ quote_string ?trimmed @ lit ''}'')"
    if "attachedFiles s = []"
    using that by (simp add: requestInit_without_files)
  show ?thesis
  proof (intro exI [of _ ?init] conjI impI)
    show "snd (submitPrompt_start cfg num preset s) = Some (BACKEND_ENDPOINT cfg, ?init)"
      by (rule call)
    show "request_method ?init = lit ''POST''"
      by (rule post)
  qed (use multipart plain in blast)+
qed

theorem request_has_one_of_two_shapes_witness:
  "trim padded_quote = trimmed_quote
   \<and> trimmed_quote \<noteq> []
   \<and> \<not> isLoading session0 \<and> attachedFiles session0 = []
   \<and> BACKEND_ENDPOINT default_config =
       lit ''https://fastapi-dev.calmdesert-eab0db8f.eastus.azurecontainerapps.io/chat''
   \<and> (\<exists>init. snd (submitPrompt_start default_config num_1e21 (Some padded_quote) session0) = Some (BACKEND_ENDPOINT default_config, init)
        \<and> request_method init = lit ''POST''
        \<and> headers init = [(lit ''Content-Type'', lit ''application/json'')]
        \<and> body init =
             BodyText (lit ''{\"prompt\":\"a'' @ [0x5C, 0x6E, 0x5C, 0x22] @ lit ''b\"}''))
   \<and> attachedFiles (session0\<lparr>attachedFiles := [file_a]\<rparr>) \<noteq> []
   \<and> (\<exists>init. snd (submitPrompt_start default_config num_1e21 (Some padded_quote) (session0\<lparr>attachedFiles := [file_a]\<rparr>)) =
          Some (BACKEND_ENDPOINT default_config, init)
        \<and> request_method init = lit ''POST''
        \<and> headers init = []
        \<and> body init =
             FormData [(lit ''prompt'', FormText trimmed_quote), (lit ''files'', FormFile file_a)])"
proof -
  have h1: "trim (case (Some padded_quote) of None \<Rightarrow> input session0 | Some p \<Rightarrow> p) \<noteq> []"
    by (simp add: trim_def is_whitespace_def lit_def)
  have h2: "\<not> isLoading session0"
    by (simp add: initial_session_def)
  have h3: "trim (case (Some padded_quote) of None \<Rightarrow> input (session0\<lparr>attachedFiles := [file_a]\<rparr>) | Some p \<Rightarrow> p) \<noteq> []"
    by (simp add: trim_def is_whitespace_def lit_def)
  have h4: "\<not> isLoading (session0\<lparr>attachedFiles := [file_a]\<rparr>)"
    by (simp add: initial_session_def)
  show ?thesis
    using request_has_one_of_two_shapes [OF h1 h2, where cfg = default_config and num = num_1e21]
      request_has_one_of_two_shapes [OF h3 h4, where cfg = default_config and num = num_1e21]
    by (simp add: trim_def is_whitespace_def lit_def submitPrompt_start_def Let_def
        requestInit_def quote_string_def quote_unit_def is_leading_surrogate_def
        is_trailing_surrogate_def initial_session_def BACKEND_ENDPOINT_def RAW_BACKEND_URL_def
        RAW_BACKEND_PATH_def DEFAULT_BACKEND_URL_def DEFAULT_BACKEND_PATH_def
        resolve_endpoint_def NORMALIZED_BACKEND_URL_def NORMALIZED_BACKEND_PATH_def)
qed

subsection \<open>Settling\<close>

text \<open>
  C3 (amended). On a 2xx response whose parsed payload is not \<open>null\<close>, the content of the
  assistant Message is the value of the first of the fields reply, answer, output,
  response, message, in that order, that is present with a value other than \<open>null\<close>; when
  none of the five is, it is the JSON serialisation of the payload. The payload
  \<open>{"answer":"A","message":"M"}\<close> gives \<open>A\<close>, and \<open>{"foo":"bar"}\<close> gives its serialisation.
\<close>

theorem reply_is_first_non_null_field:
  "(ok response \<and> json_result response = Inr payload \<and> payload \<noteq> JNull \<longrightarrow>
      messages (submitPrompt_settle num (Resolved response) t) =
        messages t @
          [\<lparr>role = Assistant,
            content =
              (case filter (\<lambda>v. v \<noteq> JNull)
                      (List.map_filter (property payload)
                         [lit ''reply'', lit ''answer'', lit ''output'', lit ''response'', lit ''message'']) of
                 [] \<Rightarrow> JStr (JSON_stringify num payload)
               | v # _ \<Rightarrow> v)\<rparr>])
   \<and> assistantContent num (JObj [(lit ''answer'', JStr (lit ''A'')), (lit ''message'', JStr (lit ''M''))]) =
       Inr (JStr (lit ''A''))
   \<and> assistantContent num (JObj [(lit ''foo'', JStr (lit ''bar''))]) =
       Inr (JStr (lit ''{\"foo\":\"bar\"}''))"
proof -
  have general: "messages (submitPrompt_settle num (Resolved response) t) =
        messages t @
          [\<lparr>role = Assistant,
            content =
              (case filter (\<lambda>v. v \<noteq> JNull)
                      (List.map_filter (property payload)
                         [lit ''reply'', lit ''answer'', lit ''output'', lit ''response'', lit ''message'']) of
                 [] \<Rightarrow> JStr (JSON_stringify num payload)
               | v # _ \<Rightarrow> v)\<rparr>]"
    if "ok response" "json_result response = Inr payload" "payload \<noteq> JNull"
    using that
    by (simp add: submitPrompt_settle_def try_block_simps assistantContent_first_non_null)
  have ex1: "assistantContent num (JObj [(lit ''answer'', JStr (lit ''A'')), (lit ''message'', JStr (lit ''M''))]) =
       Inr (JStr (lit ''A''))"
    by (simp add: assistantContent_def property_def coalesce_def)
  have ex2: "assistantContent num (JObj [(lit ''foo'', JStr (lit ''bar''))]) =
       Inr (JStr (lit ''{\"foo\":\"bar\"}''))"
    by (simp add: assistantContent_def property_def coalesce_def)
      (simp add: quote_string_def quote_unit_def lit_def is_leading_surrogate_def
        is_trailing_surrogate_def)
  from general ex1 ex2 show ?thesis by blast
qed

theorem reply_is_first_non_null_field_witness:
  "ok response_200
   \<and> json_result response_200 = Inr (JObj [(lit ''reply'', JStr (lit ''Hi!''))])
   \<and> JObj [(lit ''reply'', JStr (lit ''Hi!''))] \<noteq> (JNull :: unit json)
   \<and> messages (submitPrompt_settle num_1e21 (Resolved response_200) session0) =
       messages session0 @ [\<lparr>role = Assistant, content = JStr (lit ''Hi!'')\<rparr>]
   \<and> ok response_number
   \<and> json_result response_number =
       Inr (JObj [(lit ''reply'', JNull), (lit ''n'', JNum ()), (lit ''s'', JStr [0x22, 0xD800])])
   \<and> messages (submitPrompt_settle num_1e21 (Resolved response_number) session0) =
       messages session0 @
         [\<lparr>role = Assistant,
           content =
             JStr (lit ''{\"reply\":null,\"n\":1e+21,\"s\":\"'' @ [0x5C, 0x22, 0x5C]
               @ lit ''ud800\"}'')\<rparr>]"
  using reply_is_first_non_null_field
      [where response = response_200 and payload = "JObj [(lit ''reply'', JStr (lit ''Hi!''))]"
        and t = session0 and num = num_1e21]
    reply_is_first_non_null_field
      [where response = response_number
        and payload = "JObj [(lit ''reply'', JNull), (lit ''n'', JNum ()), (lit ''s'', JStr [0x22, 0xD800])]"
        and t = session0 and num = num_1e21]
  by (simp add: ok_def property_def List.map_filter_simps quote_string_def quote_unit_def lit_def
      is_leading_surrogate_def is_trailing_surrogate_def unicode_escape_def hex_digit_def)

text \<open>
  A field that is present with the value \<open>null\<close> is passed over: for the payload
  \<open>{"reply":null,"answer":"A"}\<close> the first present field is reply, and the code shows \<open>A\<close>.
\<close>

theorem reply_first_present_counterexample:
  "assistantContent num_1e21 (JObj [(lit ''reply'', JNull), (lit ''answer'', JStr (lit ''A''))])
     \<noteq> Inr (spec_displayed num_1e21 (JObj [(lit ''reply'', JNull), (lit ''answer'', JStr (lit ''A''))]))"
  by (simp add: assistantContent_def spec_displayed_def property_def coalesce_def
      List.map_filter_simps)

text \<open>
  C5 (amended). A response with a status outside 200 to 299 settles the submission by
  storing the error detail in the error slot, appending one assistant Message with the
  fixed apology text, and clearing the loading flag; nothing else of the session
  changes. The detail is the body text, or \<open>Backend responded with an error\<close> when the body
  is empty, or, when reading the body fails, what the failure gives. A rejected network
  call does the same with the message of the thrown error, or a generic text when the
  thrown value is no \<open>Error\<close>. The transcript thus receives the apology text whatever the
  error detail is. The next submission that passes the guard empties the error slot; a
  call that the guard turns away, its text being empty after trimming, leaves the error
  slot as it is. A run issues exactly one network call, so a failure is not retried.
\<close>

theorem failure_appends_apology_and_surfaces_error:
  "(\<not> ok response \<longrightarrow>
      submitPrompt_settle num (Resolved response) t =
        t\<lparr>error := (case text_result response of
                      Inr body_text \<Rightarrow>
                        if body_text = [] then lit ''Backend responded with an error''
                        else body_text
                    | Inl (ErrorObject m) \<Rightarrow> m
                    | Inl OtherValue \<Rightarrow> lit ''Unable to reach the backend. Please try again.''),
          messages := messages t @ [\<lparr>role = Assistant, content = JStr (lit ''I could not reach the backend right now. Please try again in a moment.'')\<rparr>],
          isLoading := False\<rparr>)
   \<and> submitPrompt_settle num (Rejected err) t =
        t\<lparr>error := (case err of ErrorObject m \<Rightarrow> m
                       | OtherValue \<Rightarrow> lit ''Unable to reach the backend. Please try again.''),
          messages := messages t @ [\<lparr>role = Assistant, content = JStr (lit ''I could not reach the backend right now. Please try again in a moment.'')\<rparr>],
          isLoading := False\<rparr>
   \<and> (trim (case preset of None \<Rightarrow> input (submitPrompt_settle num outcome t) | Some p \<Rightarrow> p) \<noteq> [] \<longrightarrow>
        error (fst (submitPrompt_start cfg num preset (submitPrompt_settle num outcome t))) = []
        \<and> snd (submitPrompt_start cfg num preset (submitPrompt_settle num outcome t)) \<noteq> None)
   \<and> (trim (case preset of None \<Rightarrow> input (submitPrompt_settle num outcome t) | Some p \<Rightarrow> p) = [] \<longrightarrow>
        submitPrompt_start cfg num preset (submitPrompt_settle num outcome t) =
          (submitPrompt_settle num outcome t, None))
   \<and> (trim (case preset of None \<Rightarrow> input s | Some p \<Rightarrow> p) \<noteq> [] \<and> \<not> isLoading s \<longrightarrow>
        length (snd (submitPrompt cfg num fetch preset s)) = 1)"
proof -
  have non2xx: "submitPrompt_settle num (Resolved response) t =
        t\<lparr>error := (case text_result response of
                      Inr body_text \<Rightarrow>
                        if body_text = [] then lit ''Backend responded with an error''
                        else body_text
                    | Inl (ErrorObject m) \<Rightarrow> m
                    | Inl OtherValue \<Rightarrow> lit ''Unable to reach the backend. Please try again.''),
          messages := messages t @ [\<lparr>role = Assistant, content = JStr (lit ''I could not reach the backend right now. Please try again in a moment.'')\<rparr>],
          isLoading := False\<rparr>"
    if h: "\<not> ok response"
  proof (cases "text_result response")
    case (Inr body_text)
    show ?thesis
      using settle_failure [OF try_block_simps(2) [OF h Inr], of num t]
      by (simp add: catch_message_def APOLOGY_def Inr)
  next
    case (Inl e)
    show ?thesis
      using settle_failure [OF try_block_simps(3) [OF h Inl], of num t]
      by (cases e) (simp_all add: catch_message_def APOLOGY_def Inl)
  qed
  have transport: "submitPrompt_settle num (Rejected err) t =
        t\<lparr>error := (case err of ErrorObject m \<Rightarrow> m
                       | OtherValue \<Rightarrow> lit ''Unable to reach the backend. Please try again.''),
          messages := messages t @ [\<lparr>role = Assistant, content = JStr (lit ''I could not reach the backend right now. Please try again in a moment.'')\<rparr>],
          isLoading := False\<rparr>"
    using settle_failure [OF try_block_simps(1), of num err t]
    by (simp add: catch_message_def APOLOGY_def)
  have cleared: "error (fst (submitPrompt_start cfg num preset (submitPrompt_settle num outcome t))) = []
        \<and> snd (submitPrompt_start cfg num preset (submitPrompt_settle num outcome t)) \<noteq> None"
    if "trim (case preset of None \<Rightarrow> input (submitPrompt_settle num outcome t) | Some p \<Rightarrow> p) \<noteq> []"
    by (simp add: start_accepted [OF that settle_idle])
  have kept: "submitPrompt_start cfg num preset (submitPrompt_settle num outcome t) =
          (submitPrompt_settle num outcome t, None)"
    if "trim (case preset of None \<Rightarrow> input (submitPrompt_settle num outcome t) | Some p \<Rightarrow> p) = []"
    using that by (simp add: start_rejected)
  have once: "length (snd (submitPrompt cfg num fetch preset s)) = 1"
    if "trim (case preset of None \<Rightarrow> input s | Some p \<Rightarrow> p) \<noteq> []" "\<not> isLoading s"
    by (simp add: submitPrompt_def start_accepted [OF that])
  show ?thesis
  proof (intro conjI impI)
    show "submitPrompt_settle num (Rejected err) t =
        t\<lparr>error := (case err of ErrorObject m \<Rightarrow> m
                       | OtherValue \<Rightarrow> lit ''Unable to reach the backend. Please try again.''),
          messages := messages t @ [\<lparr>role = Assistant, content = JStr (lit ''I could not reach the backend right now. Please try again in a moment.'')\<rparr>],
          isLoading := False\<rparr>"
      by (rule transport)
  qed (use non2xx cleared kept once in blast)+
qed

theorem failure_appends_apology_and_surfaces_error_witness:
  "\<not> ok response_500
   \<and> submitPrompt_settle num_1e21 (Resolved response_500) (session0\<lparr>isLoading := True\<rparr>) =
       session0\<lparr>error := lit ''server exploded'',
         messages := messages session0 @ [\<lparr>role = Assistant, content = JStr (lit ''I could not reach the backend right now. Please try again in a moment.'')\<rparr>]\<rparr>
   \<and> trim (lit '' Hello'') \<noteq> []
   \<and> error (fst (submitPrompt_start default_config num_1e21 (Some (lit '' Hello''))
        (submitPrompt_settle num_1e21 (Resolved response_500) (session0\<lparr>isLoading := True\<rparr>)))) = []
   \<and> trim [0xA0, 0x20] = []
   \<and> error (fst (submitPrompt_start default_config num_1e21 (Some [0xA0, 0x20])
        (submitPrompt_settle num_1e21 (Resolved response_500) (session0\<lparr>isLoading := True\<rparr>)))) =
       lit ''server exploded''
   \<and> \<not> isLoading session0
   \<and> length (snd (submitPrompt default_config num_1e21 (\<lambda>_. Resolved response_500)
        (Some (lit '' Hello'')) session0)) = 1
   \<and> \<not> ok (response_500\<lparr>status := 199\<rparr>) \<and> ok (response_500\<lparr>status := 200\<rparr>)
   \<and> ok (response_500\<lparr>status := 299\<rparr>) \<and> \<not> ok (response_500\<lparr>status := 300\<rparr>)"
  using failure_appends_apology_and_surfaces_error
      [where response = response_500 and t = "session0\<lparr>isLoading := True\<rparr>"
        and err = OtherValue and preset = "Some (lit '' Hello'')"
        and outcome = "Resolved response_500" and cfg = default_config
        and s = session0 and fetch = "\<lambda>_. Resolved response_500" and num = num_1e21]
    failure_appends_apology_and_surfaces_error
      [where response = response_500 and t = "session0\<lparr>isLoading := True\<rparr>"
        and err = OtherValue and preset = "Some [0xA0, 0x20]"
        and outcome = "Resolved response_500" and cfg = default_config
        and s = session0 and fetch = "\<lambda>_. Resolved response_500" and num = num_1e21]
  by (simp add: ok_def initial_session_def submitPrompt_settle_def try_block_def
      catch_message_def APOLOGY_def submitPrompt_start_def submitPrompt_def Let_def
      trim_def is_whitespace_def lit_def)

text \<open>
  An attempt that the guard turns away does not empty the error slot: after the failure
  with body \<open>server exploded\<close>, a submit of blank text leaves that text in the slot.
\<close>

theorem error_kept_on_blank_attempt_counterexample:
  "error (fst (submitPrompt_start default_config num_1e21 (Some (lit ''  ''))
      (submitPrompt_settle num_1e21 (Resolved response_500) session0))) =
     lit ''server exploded''
   \<and> error (fst (submitPrompt_start default_config num_1e21 (Some (lit ''  ''))
      (submitPrompt_settle num_1e21 (Resolved response_500) session0))) \<noteq> []"
  by (simp add: ok_def initial_session_def submitPrompt_settle_def try_block_def
      catch_message_def submitPrompt_start_def Let_def trim_def is_whitespace_def lit_def)

text \<open>
  C7 (amended). Settling empties the staged attachments exactly when the submission
  succeeds, that is on a 2xx response whose body parses to a payload other than \<open>null\<close>.
  On every other outcome they are unchanged: a 2xx response whose body parses to \<open>null\<close>
  or does not parse, a response with another status, a rejected call. The part of
  \<open>submitPrompt\<close> before the call does not change them either.
\<close>

theorem attachments_cleared_only_on_success:
  "(ok response \<and> json_result response = Inr payload \<and> payload \<noteq> JNull \<longrightarrow>
      attachedFiles (submitPrompt_settle num (Resolved response) t) = [])
   \<and> (ok response \<and> json_result response = Inr JNull \<longrightarrow>
      attachedFiles (submitPrompt_settle num (Resolved response) t) = attachedFiles t)
   \<and> (ok response \<and> json_result response = Inl err \<longrightarrow>
      attachedFiles (submitPrompt_settle num (Resolved response) t) = attachedFiles t)
   \<and> (\<not> ok response \<longrightarrow>
      attachedFiles (submitPrompt_settle num (Resolved response) t) = attachedFiles t)
   \<and> attachedFiles (submitPrompt_settle num (Rejected err) t) = attachedFiles t
   \<and> (attachedFiles t \<noteq> [] \<longrightarrow>
        (attachedFiles (submitPrompt_settle num outcome t) = [] \<longleftrightarrow>
           (\<exists>r p. outcome = Resolved r \<and> ok r \<and> json_result r = Inr p \<and> p \<noteq> JNull)))
   \<and> attachedFiles (fst (submitPrompt_start cfg num preset s)) = attachedFiles s"
proof -
  have success: "attachedFiles (submitPrompt_settle num (Resolved r) t) = []"
    if h: "ok r" "json_result r = Inr p" "p \<noteq> JNull" for r p
  proof -
    obtain assistant where "assistantContent num p = Inr assistant"
      using assistantContent_not_null [OF h(3)] by blast
    then have "try_block num (Resolved r) = Inr assistant"
      by (simp add: try_block_simps(5) [OF h(1,2)])
    then show ?thesis
      by (simp add: settle_success)
  qed
  have null: "attachedFiles (submitPrompt_settle num (Resolved r) t) = attachedFiles t"
    if h: "ok r" "json_result r = Inr JNull" for r
  proof -
    obtain m where "assistantContent num (JNull :: 'a json) = Inl (ErrorObject m)"
      using assistantContent_null by blast
    then have "try_block num (Resolved r) = Inl (ErrorObject m)"
      by (simp add: try_block_simps(5) [OF h])
    then show ?thesis
      by (simp add: settle_failure)
  qed
  have unparsed: "attachedFiles (submitPrompt_settle num (Resolved r) t) = attachedFiles t"
    if h: "ok r" "json_result r = Inl e" for r e
    by (simp add: settle_failure [OF try_block_simps(4) [OF h]])
  have non2xx: "attachedFiles (submitPrompt_settle num (Resolved r) t) = attachedFiles t"
    if h: "\<not> ok r" for r
  proof (cases "text_result r")
    case (Inl e)
    show ?thesis
      by (simp add: settle_failure [OF try_block_simps(3) [OF h Inl]])
  next
    case (Inr b)
    show ?thesis
      by (simp add: settle_failure [OF try_block_simps(2) [OF h Inr]])
  qed
  have transport: "attachedFiles (submitPrompt_settle num (Rejected e) t) = attachedFiles t" for e
    by (simp add: settle_failure [OF try_block_simps(1)])
  have exactly: "attachedFiles (submitPrompt_settle num outcome t) = [] \<longleftrightarrow>
           (\<exists>r p. outcome = Resolved r \<and> ok r \<and> json_result r = Inr p \<and> p \<noteq> JNull)"
    if ne: "attachedFiles t \<noteq> []"
  proof
    assume cleared: "attachedFiles (submitPrompt_settle num outcome t) = []"
    show "\<exists>r p. outcome = Resolved r \<and> ok r \<and> json_result r = Inr p \<and> p \<noteq> JNull"
    proof (cases outcome)
      case (Rejected e)
      with cleared transport ne show ?thesis by simp
    next
      case (Resolved r)
      show ?thesis
      proof (cases "ok r")
        case False
        with cleared non2xx ne Resolved show ?thesis by simp
      next
        case True
        show ?thesis
        proof (cases "json_result r")
          case (Inl e)
          with cleared unparsed [OF True] ne Resolved show ?thesis by simp
        next
          case (Inr p)
          show ?thesis
          proof (cases "p = JNull")
            case True
            with cleared null [OF \<open>ok r\<close>] Inr ne Resolved show ?thesis by simp
          next
            case False
            with Resolved \<open>ok r\<close> Inr show ?thesis by blast
          qed
        qed
      qed
    qed
  next
    assume "\<exists>r p. outcome = Resolved r \<and> ok r \<and> json_result r = Inr p \<and> p \<noteq> JNull"
    then show "attachedFiles (submitPrompt_settle num outcome t) = []"
      using success by blast
  qed
  have start: "attachedFiles (fst (submitPrompt_start cfg num preset s)) = attachedFiles s"
    by (simp add: submitPrompt_start_def Let_def)
  show ?thesis
  proof (intro conjI impI)
    show "attachedFiles (submitPrompt_settle num (Rejected err) t) = attachedFiles t"
      by (rule transport)
    show "attachedFiles (fst (submitPrompt_start cfg num preset s)) = attachedFiles s"
      by (rule start)
    show "attachedFiles (submitPrompt_settle num outcome t) = [] \<longleftrightarrow>
           (\<exists>r p. outcome = Resolved r \<and> ok r \<and> json_result r = Inr p \<and> p \<noteq> JNull)"
      if "attachedFiles t \<noteq> []"
      using that by (rule exactly)
  qed (use success null unparsed non2xx in blast)+
qed

theorem attachments_cleared_only_on_success_witness:
  "ok response_200 \<and> json_result response_200 = Inr (JObj [(lit ''reply'', JStr (lit ''Hi!''))])
   \<and> attachedFiles (submitPrompt_settle num_1e21 (Resolved response_200) (session0\<lparr>attachedFiles := [file_a]\<rparr>)) = []
   \<and> ok response_null \<and> json_result response_null = Inr JNull
   \<and> attachedFiles (submitPrompt_settle num_1e21 (Resolved response_null) (session0\<lparr>attachedFiles := [file_a]\<rparr>)) = [file_a]
   \<and> ok response_bad \<and> json_result response_bad = Inl (ErrorObject (lit ''Unexpected end of JSON input''))
   \<and> attachedFiles (submitPrompt_settle num_1e21 (Resolved response_bad) (session0\<lparr>attachedFiles := [file_a]\<rparr>)) = [file_a]
   \<and> \<not> ok response_500
   \<and> attachedFiles (submitPrompt_settle num_1e21 (Resolved response_500) (session0\<lparr>attachedFiles := [file_a]\<rparr>)) = [file_a]
   \<and> attachedFiles (session0\<lparr>attachedFiles := [file_a]\<rparr>) \<noteq> []"
  using attachments_cleared_only_on_success
      [where response = response_200 and payload = "JObj [(lit ''reply'', JStr (lit ''Hi!''))]"
        and t = "session0\<lparr>attachedFiles := [file_a]\<rparr>" and num = num_1e21
        and outcome = "Resolved response_200"]
    attachments_cleared_only_on_success
      [where response = response_null and t = "session0\<lparr>attachedFiles := [file_a]\<rparr>"
        and num = num_1e21]
    attachments_cleared_only_on_success
      [where response = response_bad and t = "session0\<lparr>attachedFiles := [file_a]\<rparr>"
        and num = num_1e21 and err = "ErrorObject (lit ''Unexpected end of JSON input'')"]
    attachments_cleared_only_on_success
      [where response = response_500 and t = "session0\<lparr>attachedFiles := [file_a]\<rparr>"
        and num = num_1e21]
  by (simp add: ok_def submitPrompt_settle_def try_block_def assistantContent_def property_def
      coalesce_def)

text \<open>
  A 2xx response whose body is the JSON text \<open>null\<close> parses, but reading the reply field
  of \<open>null\<close> throws, and the staged file stays.
\<close>

theorem attachments_kept_on_null_payload_counterexample:
  "ok response_null \<and> json_result response_null = Inr JNull
   \<and> attachedFiles (submitPrompt_settle num_1e21 (Resolved response_null)
        (session0\<lparr>attachedFiles := [file_a]\<rparr>)) \<noteq> []"
  by (simp add: ok_def submitPrompt_settle_def try_block_def assistantContent_def)

text \<open>
  C10. A 2xx response whose body is not valid JSON, so that \<open>json()\<close> rejects with an
  error, takes the failure path: the error's message goes to the error slot, the fixed
  apology is appended as an assistant Message, the loading flag is cleared, and the
  staged attachments stay.
\<close>

theorem invalid_json_takes_failure_path:
  assumes "ok response" and "json_result response = Inl (ErrorObject m)"
  shows "submitPrompt_settle num (Resolved response) t =
        t\<lparr>error := m,
          messages := messages t @ [\<lparr>role = Assistant, content = JStr (lit ''I could not reach the backend right now. Please try again in a moment.'')\<rparr>],
          isLoading := False\<rparr>
     \<and> attachedFiles (submitPrompt_settle num (Resolved response) t) = attachedFiles t"
  using settle_failure [OF try_block_simps(4) [OF assms], of num t]
  by (simp add: catch_message_def APOLOGY_def)

theorem invalid_json_takes_failure_path_witness:
  "ok response_bad
   \<and> json_result response_bad = Inl (ErrorObject (lit ''Unexpected end of JSON input''))
   \<and> error (submitPrompt_settle num_1e21 (Resolved response_bad) (session0\<lparr>attachedFiles := [file_a]\<rparr>)) =
       lit ''Unexpected end of JSON input''
   \<and> messages (submitPrompt_settle num_1e21 (Resolved response_bad) (session0\<lparr>attachedFiles := [file_a]\<rparr>)) =
       messages session0 @ [\<lparr>role = Assistant, content = JStr (lit ''I could not reach the backend right now. Please try again in a moment.'')\<rparr>]
   \<and> attachedFiles (submitPrompt_settle num_1e21 (Resolved response_bad) (session0\<lparr>attachedFiles := [file_a]\<rparr>)) = [file_a]"
proof -
  have h1: "ok response_bad"
    by (simp add: ok_def)
  have h2: "json_result response_bad = Inl (ErrorObject (lit ''Unexpected end of JSON input''))"
    by simp
  show ?thesis
    using invalid_json_takes_failure_path
      [OF h1 h2, where t = "session0\<lparr>attachedFiles := [file_a]\<rparr>" and num = num_1e21] h1
    by simp
qed

subsection \<open>Endpoint\<close>

text \<open>
  C6 (amended). The resolved endpoint is the base without its trailing slashes followed
  by the path, which is kept as it is when it starts with a slash and gets one slash in
  front otherwise. For a path that does not start with two slashes, exactly one slash
  separates base and path: the endpoint is the stripped base, one slash, and the rest of
  the path, where the base part does not end with a slash and the rest does not start
  with one. Base \<open>https://x/\<close> with path \<open>chat\<close> gives \<open>https://x/chat\<close>. Every call of a
  submission goes to the endpoint of the configuration, whatever the session state.
\<close>

theorem endpoint_resolution:
  "resolve_endpoint url path =
      rev (dropWhile (\<lambda>c. c = slash) (rev url))
        @ (if take 1 path = lit ''/'' then path else slash # path)
   \<and> (take 2 path \<noteq> lit ''//'' \<longrightarrow>
        resolve_endpoint url path = spec_resolve_endpoint url path
        \<and> (\<exists>b p. resolve_endpoint url path = b @ lit ''/'' @ p
              \<and> (b = [] \<or> last b \<noteq> slash) \<and> (p = [] \<or> hd p \<noteq> slash)))
   \<and> resolve_endpoint (lit ''https://x/'') (lit ''chat'') = lit ''https://x/chat''
   \<and> (snd (submitPrompt_start cfg num preset s) = Some (target, init) \<longrightarrow>
        target = BACKEND_ENDPOINT cfg)"
proof -
  let ?b = "NORMALIZED_BACKEND_URL url"
  let ?p = "dropWhile (\<lambda>c. c = slash) path"
  have one: "lit ''/'' = [slash]" and two: "lit ''//'' = [slash, slash]"
    by (simp_all add: lit_def)
  have shape: "resolve_endpoint url path =
      rev (dropWhile (\<lambda>c. c = slash) (rev url))
        @ (if take 1 path = lit ''/'' then path else slash # path)"
    by (simp only: resolve_endpoint_def NORMALIZED_BACKEND_PATH_cases NORMALIZED_BACKEND_URL_def
        one)
  have single: "resolve_endpoint url path = spec_resolve_endpoint url path
        \<and> (\<exists>b p. resolve_endpoint url path = b @ lit ''/'' @ p
              \<and> (b = [] \<or> last b \<noteq> slash) \<and> (p = [] \<or> hd p \<noteq> slash))"
    if h': "take 2 path \<noteq> lit ''//''"
  proof
    from h' have h: "take 2 path \<noteq> [slash, slash]"
      by (simp add: two)
    show eq: "resolve_endpoint url path = spec_resolve_endpoint url path"
      by (simp add: resolve_endpoint_def spec_resolve_endpoint_def
          NORMALIZED_BACKEND_PATH_single [OF h] NORMALIZED_BACKEND_URL_def)
    have "resolve_endpoint url path = ?b @ lit ''/'' @ ?p"
      by (simp add: resolve_endpoint_def NORMALIZED_BACKEND_PATH_single [OF h] one)
    moreover have "?b = [] \<or> last ?b \<noteq> slash"
      by (rule NORMALIZED_BACKEND_URL_no_trailing_slash)
    moreover have "?p = [] \<or> hd ?p \<noteq> slash"
      using dropWhile_no_leading [of "\<lambda>c. c = slash" path] by simp
    ultimately show "\<exists>b p. resolve_endpoint url path = b @ lit ''/'' @ p
              \<and> (b = [] \<or> last b \<noteq> slash) \<and> (p = [] \<or> hd p \<noteq> slash)"
      by blast
  qed
  have example: "resolve_endpoint (lit ''https://x/'') (lit ''chat'') = lit ''https://x/chat''"
    by (simp add: resolve_endpoint_def NORMALIZED_BACKEND_URL_def NORMALIZED_BACKEND_PATH_def
        lit_def)
  have fixed: "target = BACKEND_ENDPOINT cfg"
    if "snd (submitPrompt_start cfg num preset s) = Some (target, init)"
    using that by (simp add: submitPrompt_start_def Let_def split: if_splits)
  show ?thesis
  proof (intro conjI impI)
    show "resolve_endpoint url path =
      rev (dropWhile (\<lambda>c. c = slash) (rev url))
        @ (if take 1 path = lit ''/'' then path else slash # path)"
      by (rule shape)
    show "resolve_endpoint (lit ''https://x/'') (lit ''chat'') = lit ''https://x/chat''"
      by (rule example)
  qed (use single fixed in blast)+
qed

theorem endpoint_resolution_witness:
  "take 2 (lit ''/chat'') \<noteq> lit ''//''
   \<and> resolve_endpoint (lit ''https://x///'') (lit ''/chat'') = lit ''https://x/chat''
   \<and> resolve_endpoint (lit ''https://x///'') (lit ''/chat'') =
       spec_resolve_endpoint (lit ''https://x///'') (lit ''/chat'')
   \<and> snd (submitPrompt_start default_config num_1e21 (Some (lit ''Hello'')) session0) =
       Some (BACKEND_ENDPOINT default_config, requestInit num_1e21 [] (lit ''Hello''))
   \<and> BACKEND_ENDPOINT default_config =
       lit ''https://fastapi-dev.calmdesert-eab0db8f.eastus.azurecontainerapps.io/chat''"
proof -
  have c: "snd (submitPrompt_start default_config num_1e21 (Some (lit ''Hello'')) session0) =
       Some (BACKEND_ENDPOINT default_config, requestInit num_1e21 [] (lit ''Hello''))"
    by (simp add: submitPrompt_start_def Let_def trim_def is_whitespace_def initial_session_def
        lit_def)
  have b: "BACKEND_ENDPOINT default_config =
       lit ''https://fastapi-dev.calmdesert-eab0db8f.eastus.azurecontainerapps.io/chat''"
    by (simp add: BACKEND_ENDPOINT_def RAW_BACKEND_URL_def RAW_BACKEND_PATH_def
        DEFAULT_BACKEND_URL_def DEFAULT_BACKEND_PATH_def resolve_endpoint_def
        NORMALIZED_BACKEND_URL_def NORMALIZED_BACKEND_PATH_def lit_def)
  show ?thesis
    using endpoint_resolution
      [where url = "lit ''https://x///''" and path = "lit ''/chat''" and cfg = default_config
        and preset = "Some (lit ''Hello'')" and s = session0 and num = num_1e21
        and target = "BACKEND_ENDPOINT default_config"
        and init = "requestInit num_1e21 [] (lit ''Hello'')"] c b
    by (simp add: resolve_endpoint_def spec_resolve_endpoint_def NORMALIZED_BACKEND_URL_def
        NORMALIZED_BACKEND_PATH_def lit_def)
qed

text \<open>
  A path with several leading slashes keeps them all: base \<open>https://x/\<close> with path
  \<open>//chat\<close> resolves to \<open>https://x//chat\<close>, two slashes between base and path.
\<close>

theorem endpoint_double_slash_counterexample:
  "resolve_endpoint (lit ''https://x/'') (lit ''//chat'') = lit ''https://x//chat''
   \<and> resolve_endpoint (lit ''https://x/'') (lit ''//chat'')
       \<noteq> spec_resolve_endpoint (lit ''https://x/'') (lit ''//chat'')"
  by (simp add: resolve_endpoint_def spec_resolve_endpoint_def NORMALIZED_BACKEND_URL_def
      NORMALIZED_BACKEND_PATH_def lit_def)

subsection \<open>Attachments and reset\<close>



text \<open>
  C8. After \<open>handleNewChat\<close> (the spec's resetSession), whatever the session was, the
  message sequence is exactly one assistant Message holding the welcome text, and the
  input text, the error slot, the staged attachments and the highlighted suggestion are
  empty.
\<close>

theorem handleNewChat_resets:
  "messages (handleNewChat s) = [\<lparr>role = Assistant, content = JStr WELCOME_MESSAGE\<rparr>]
   \<and> input (handleNewChat s) = []
   \<and> error (handleNewChat s) = []
   \<and> attachedFiles (handleNewChat s) = []
   \<and> highlightedSuggestion (handleNewChat s) = None"
  by (simp add: handleNewChat_def)


end
